theory Spec2Isabelle
  imports Main "HOL-Library.Word"
begin

section \<open>The unified MCAP recording writer of pulse (Go)\<close>

text \<open>
  The development embeds \<^verbatim>\<open>UnifiedMcapWriter\<close> (package foxglove), its
  \<^verbatim>\<open>SchemaRegistry\<close> and the channel resolution of \<^verbatim>\<open>MetricMcapWriter\<close>
  (package metrics). Go strings and byte slices are lists of 8-bit characters,
  \<^verbatim>\<open>uint16\<close> and \<^verbatim>\<open>uint64\<close> are machine words, Go maps are partial
  functions. Every method of the writer holds the mutex \<^verbatim>\<open>mu\<close> from entry to
  return, so a method is one atomic state transformer.
\<close>

subsection \<open>Records of the MCAP library\<close>

record Header =
  Profile :: string
  Library :: string

record Schema =
  ID :: "16 word"
  Name :: string
  Encoding :: string
  Data :: string

record Channel =
  ID :: "16 word"
  SchemaID :: "16 word"
  Topic :: string
  MessageEncoding :: string
  Metadata :: "string \<rightharpoonup> string"

record Message =
  ChannelID :: "16 word"
  Sequence :: "32 word"
  LogTime :: "64 word"
  PublishTime :: "64 word"
  Data :: string

subsection \<open>The outside world: file system and codec\<close>

text \<open>
  The codec (\<^verbatim>\<open>*mcap.Writer\<close>) and the file (\<^verbatim>\<open>*os.File\<close>) are not part of
  the repository. The model keeps the trace of the calls made on them, each with
  the error it returned (\<open>None\<close> is Go's \<^verbatim>\<open>nil\<close>), and an arbitrary function
  \<open>answers\<close> that fixes the error returned by the \<open>i\<close>-th call. Theorems hold for
  every such function, that is for every behaviour of the file system and codec.
\<close>

datatype io_call =
    Call_MkdirAll string
  | Call_Create string
  | Call_NewWriter
  | Call_WriteHeader Header
  | Call_WriteSchema Schema
  | Call_WriteChannel Channel
  | Call_WriteMessage Message
  | Call_WriterClose
  | Call_FileClose

record world =
  trace :: "(io_call \<times> string option) list"
  answers :: "nat \<Rightarrow> string option"

definition extcall :: "io_call \<Rightarrow> world \<Rightarrow> string option \<times> world" where
  "extcall c w =
     (let r = answers w (length (trace w))
      in (r, w\<lparr>trace := trace w @ [(c, r)]\<rparr>))"

text \<open>The records the codec accepted, in stream order.\<close>

fun schema_of_event :: "io_call \<times> string option \<Rightarrow> Schema list" where
  "schema_of_event (Call_WriteSchema s, None) = [s]"
| "schema_of_event _ = []"

fun channel_of_event :: "io_call \<times> string option \<Rightarrow> Channel list" where
  "channel_of_event (Call_WriteChannel c, None) = [c]"
| "channel_of_event _ = []"

definition written_schemas :: "world \<Rightarrow> Schema list" where
  "written_schemas w = concat (map schema_of_event (trace w))"

definition written_channels :: "world \<Rightarrow> Channel list" where
  "written_channels w = concat (map channel_of_event (trace w))"

subsection \<open>schemas.go: the schema registry\<close>

definition foxgloveLogSchema :: string where
  \<open>foxgloveLogSchema = ''{
  "$schema": "http://json-schema.org/draft-07/schema#",
  "title": "Log",
  "description": "A log message with timestamp, level, and structured data",
  "type": "object",
  "properties": {
    "timestamp": {
      "type": "object",
      "properties": {
        "sec": {"type": "integer"},
        "nsec": {"type": "integer"}
      },
      "required": ["sec", "nsec"]
    },
    "level": {"type": "integer", "description": "Log level (1=DEBUG, 2=INFO, 3=WARN, 4=ERROR, 5=FATAL)"},
    "message": {"type": "string", "description": "Log message"},
    "name": {"type": "string", "description": "Logger name"},
    "file": {"type": "string", "description": "Source file"},
    "line": {"type": "integer", "minimum": 0, "description": "Line number"},
    "service_version": {"type": "string", "description": "Service version"},
    "service_environment": {"type": "string", "description": "Service environment"},
    "data": {"type": "object", "description": "Additional structured data"}
  },
  "required": ["timestamp", "level", "message", "name", "file", "line", "service_version", "service_environment"]
}''\<close>

definition shokkiMetricSchema :: string where
  \<open>shokkiMetricSchema = ''{
  "$schema": "http://json-schema.org/draft-07/schema#",
  "title": "mahcanirobotics.metric",
  "description": "A metric value with timestamp for time-series visualization",
  "type": "object",
  "properties": {
    "timestamp": {
      "type": "object",
      "title": "time",
      "properties": {
        "sec": {"type": "integer", "minimum": 0},
        "nsec": {"type": "integer", "minimum": 0, "maximum": 999999999}
      },
      "required": ["sec", "nsec"],
      "description": "Timestamp of the metric sample"
    },
    "name": {"type": "string", "description": "Metric name"},
    "value": {"type": "number", "description": "Metric value (plotted on Y-axis)"}
  },
  "required": ["timestamp", "name", "value"]
}''\<close>

definition foxglovePlotSchema :: string where
  \<open>foxglovePlotSchema = ''{
  "$schema": "http://json-schema.org/draft-07/schema#",
  "title": "foxglove.Plot",
  "description": "A series of values for plotting",
  "type": "object",
  "properties": {
    "timestamp": {
      "type": "object",
      "title": "time",
      "properties": {
        "sec": {"type": "integer", "minimum": 0},
        "nsec": {"type": "integer", "minimum": 0, "maximum": 999999999}
      },
      "required": ["sec", "nsec"]
    },
    "x": {"type": "number", "description": "X-axis value"},
    "y": {"type": "number", "description": "Y-axis value"}
  },
  "required": ["timestamp", "x", "y"]
}''\<close>

record SchemaRegistry =
  schemas :: "string \<rightharpoonup> string"

definition NewSchemaRegistry :: SchemaRegistry where
  "NewSchemaRegistry =
     \<lparr>schemas = [''foxglove.Log'' \<mapsto> foxgloveLogSchema,
                 ''mahcanirobotics.metric'' \<mapsto> shokkiMetricSchema,
                 ''foxglove.Plot'' \<mapsto> foxglovePlotSchema]\<rparr>"

definition Register :: "string \<Rightarrow> string \<Rightarrow> SchemaRegistry \<Rightarrow> SchemaRegistry" where
  "Register name schema r = r\<lparr>schemas := (schemas r)(name \<mapsto> schema)\<rparr>"

text \<open>Go's \<^verbatim>\<open>(schema, exists)\<close> pair is an option.\<close>

definition Get :: "SchemaRegistry \<Rightarrow> string \<Rightarrow> string option" where
  "Get r name = schemas r name"

subsection \<open>The unified writer\<close>

record ServiceOptions =
  Name :: string
  Description :: string
  Version :: string
  Environment :: string

record FoxgloveOptions =
  Enabled :: bool
  McapPath :: string

datatype error =
    PathNotSpecified
  | CreateDirectoryFailed string
  | CreateFileFailed string
  | CreateWriterFailed string
  | WriteHeaderFailed string
  | SchemaNotFound string
  | WriteSchemaFailed string string
  | SchemaNotRegistered string
  | CreateChannelFailed string
  | McapError string
  | CloseWriterFailed string
  | CloseFileFailed string
  | CreateLogChannelFailed error
  | CreateChannelForFailed string error

text \<open>
  The fields \<^verbatim>\<open>writer\<close> and \<^verbatim>\<open>file\<close> are handles into the world, which
  the record carries in their place.
\<close>

record UnifiedMcapWriter =
  world :: world
  filePath :: string
  closed :: bool
  registry :: SchemaRegistry
  schemaIDs :: "string \<rightharpoonup> 16 word"
  nextSchemaID :: "16 word"
  channels :: "string \<rightharpoonup> 16 word"
  nextChannel :: "16 word"

definition RegisterSchema ::
  "string \<Rightarrow> UnifiedMcapWriter \<Rightarrow> error option \<times> UnifiedMcapWriter" where
  "RegisterSchema schemaName u =
     (case schemaIDs u schemaName of
        Some _ \<Rightarrow> (None, u)
      | None \<Rightarrow>
          (case Get (registry u) schemaName of
             None \<Rightarrow> (Some (SchemaNotFound schemaName), u)
           | Some schemaData \<Rightarrow>
               (let schemaID = nextSchemaID u;
                    (r, w) = extcall (Call_WriteSchema
                               \<lparr>Schema.ID = schemaID, Name = schemaName,
                                Encoding = ''jsonschema'', Data = schemaData\<rparr>) (world u)
                in case r of
                     Some err \<Rightarrow> (Some (WriteSchemaFailed schemaName err), u\<lparr>world := w\<rparr>)
                   | None \<Rightarrow>
                       (None, u\<lparr>world := w,
                                schemaIDs := (schemaIDs u)(schemaName \<mapsto> schemaID),
                                nextSchemaID := nextSchemaID u + 1\<rparr>))))"

text \<open>The loop of \<^verbatim>\<open>registerBuiltInSchemas\<close> over its list of names.\<close>

fun registerSchemas ::
  "string list \<Rightarrow> UnifiedMcapWriter \<Rightarrow> error option \<times> UnifiedMcapWriter" where
  "registerSchemas [] u = (None, u)"
| "registerSchemas (schemaName # rest) u =
     (case RegisterSchema schemaName u of
        (Some err, u') \<Rightarrow> (Some err, u')
      | (None, u') \<Rightarrow> registerSchemas rest u')"

definition registerBuiltInSchemas ::
  "UnifiedMcapWriter \<Rightarrow> error option \<times> UnifiedMcapWriter" where
  "registerBuiltInSchemas u =
     registerSchemas [''foxglove.Log'', ''mahcanirobotics.metric''] u"

text \<open>
  The constructor starts from an empty trace. \<open>Call_MkdirAll p\<close> stands for
  \<^verbatim>\<open>os.MkdirAll(filepath.Dir(p), 0755)\<close>. On failure the error comes with the
  world as the constructor left it.
\<close>

definition NewUnifiedMcapWriter ::
  "ServiceOptions \<Rightarrow> FoxgloveOptions \<Rightarrow> (nat \<Rightarrow> string option)
     \<Rightarrow> (error \<times> world) + UnifiedMcapWriter" where
  "NewUnifiedMcapWriter serviceOpts foxgloveOpts env =
     (if McapPath foxgloveOpts = [] then Inl (PathNotSpecified, \<lparr>trace = [], answers = env\<rparr>)
      else
       (let (r1, w1) = extcall (Call_MkdirAll (McapPath foxgloveOpts))
                         \<lparr>trace = [], answers = env\<rparr>
        in (case r1 of
              Some err \<Rightarrow> Inl (CreateDirectoryFailed err, w1)
            | None \<Rightarrow>
       (let (r2, w2) = extcall (Call_Create (McapPath foxgloveOpts)) w1
        in (case r2 of
              Some err \<Rightarrow> Inl (CreateFileFailed err, w2)
            | None \<Rightarrow>
       (let (r3, w3) = extcall Call_NewWriter w2
        in (case r3 of
              Some err \<Rightarrow> Inl (CreateWriterFailed err, snd (extcall Call_FileClose w3))
            | None \<Rightarrow>
       (let (r4, w4) = extcall (Call_WriteHeader
                         \<lparr>Profile = Name serviceOpts,
                          Library = ''github.com/machanirobotics/pulse/go/''\<rparr>) w3
        in (case r4 of
              Some err \<Rightarrow> Inl (WriteHeaderFailed err, snd (extcall Call_FileClose w4))
            | None \<Rightarrow>
       (let unified = \<lparr>world = w4, filePath = McapPath foxgloveOpts, closed = False,
                       registry = NewSchemaRegistry, schemaIDs = Map.empty,
                       nextSchemaID = 1, channels = Map.empty, nextChannel = 1\<rparr>
        in (case registerBuiltInSchemas unified of
              (Some err, u) \<Rightarrow> Inl (err, snd (extcall Call_FileClose (world u)))
            | (None, u) \<Rightarrow> Inr u)))))))))))"

definition AddCustomSchema ::
  "string \<Rightarrow> string \<Rightarrow> UnifiedMcapWriter \<Rightarrow> error option \<times> UnifiedMcapWriter" where
  "AddCustomSchema name schema u =
     RegisterSchema name (u\<lparr>registry := Register name schema (registry u)\<rparr>)"

text \<open>Go's \<^verbatim>\<open>(0, err)\<close> is \<open>Inl err\<close>, \<^verbatim>\<open>(id, nil)\<close> is \<open>Inr id\<close>.\<close>

definition CreateChannel ::
  "string \<Rightarrow> string \<Rightarrow> (string \<rightharpoonup> string) \<Rightarrow> UnifiedMcapWriter
     \<Rightarrow> (error + 16 word) \<times> UnifiedMcapWriter" where
  "CreateChannel topic schemaName metadata u =
     (case channels u topic of
        Some channelID \<Rightarrow> (Inr channelID, u)
      | None \<Rightarrow>
          (case schemaIDs u schemaName of
             None \<Rightarrow> (Inl (SchemaNotRegistered schemaName), u)
           | Some schemaID \<Rightarrow>
               (let channelID = nextChannel u;
                    (r, w) = extcall (Call_WriteChannel
                               \<lparr>Channel.ID = channelID, SchemaID = schemaID, Topic = topic,
                                MessageEncoding = ''json'', Metadata = metadata\<rparr>) (world u)
                in case r of
                     Some err \<Rightarrow> (Inl (CreateChannelFailed err), u\<lparr>world := w\<rparr>)
                   | None \<Rightarrow>
                       (Inr channelID,
                        u\<lparr>world := w,
                          channels := (channels u)(topic \<mapsto> channelID),
                          nextChannel := nextChannel u + 1\<rparr>))))"

definition CreateLogChannel ::
  "string \<Rightarrow> (string \<rightharpoonup> string) \<Rightarrow> UnifiedMcapWriter
     \<Rightarrow> (error + 16 word) \<times> UnifiedMcapWriter" where
  "CreateLogChannel topic metadata u = CreateChannel topic ''foxglove.Log'' metadata u"

definition CreateMetricChannel ::
  "string \<Rightarrow> (string \<rightharpoonup> string) \<Rightarrow> UnifiedMcapWriter
     \<Rightarrow> (error + 16 word) \<times> UnifiedMcapWriter" where
  "CreateMetricChannel topic metadata u =
     CreateChannel topic ''mahcanirobotics.metric'' metadata u"

definition WriteMessage ::
  "16 word \<Rightarrow> string \<Rightarrow> 64 word \<Rightarrow> 64 word \<Rightarrow> UnifiedMcapWriter
     \<Rightarrow> error option \<times> UnifiedMcapWriter" where
  "WriteMessage channelID data logTime publishTime u =
     (let (r, w) = extcall (Call_WriteMessage
                     \<lparr>ChannelID = channelID, Sequence = 0, LogTime = logTime,
                      PublishTime = publishTime, Data = data\<rparr>) (world u)
      in (map_option McapError r, u\<lparr>world := w\<rparr>))"

definition Close :: "UnifiedMcapWriter \<Rightarrow> error option \<times> UnifiedMcapWriter" where
  "Close u =
     (if closed u then (None, u)
      else
        let (r1, w1) = extcall Call_WriterClose (world u)
        in case r1 of
             Some err \<Rightarrow>
               (Some (CloseWriterFailed err), u\<lparr>world := snd (extcall Call_FileClose w1)\<rparr>)
           | None \<Rightarrow>
               (let (r2, w2) = extcall Call_FileClose w1
                in case r2 of
                     Some err \<Rightarrow> (Some (CloseFileFailed err), u\<lparr>world := w2\<rparr>)
                   | None \<Rightarrow> (None, u\<lparr>world := w2, closed := True\<rparr>)))"

definition IsClosed :: "UnifiedMcapWriter \<Rightarrow> bool" where
  "IsClosed u = closed u"

definition GetFilePath :: "UnifiedMcapWriter \<Rightarrow> string" where
  "GetFilePath u = filePath u"

subsection \<open>Callers: sequences of calls on one writer\<close>

text \<open>
  A client of the writer is a sequence of method calls; \<open>run\<close> performs them in
  order and keeps the writer. \<^verbatim>\<open>CreateLogChannel\<close> and
  \<^verbatim>\<open>CreateMetricChannel\<close> are \<open>Op_CreateChannel\<close> at a fixed schema name.
\<close>

datatype op =
    Op_RegisterSchema string
  | Op_AddCustomSchema string string
  | Op_CreateChannel string string "string \<rightharpoonup> string"
  | Op_WriteMessage "16 word" string "64 word" "64 word"
  | Op_Close

fun exec :: "op \<Rightarrow> UnifiedMcapWriter \<Rightarrow> UnifiedMcapWriter" where
  "exec (Op_RegisterSchema schemaName) u = snd (RegisterSchema schemaName u)"
| "exec (Op_AddCustomSchema name schema) u = snd (AddCustomSchema name schema u)"
| "exec (Op_CreateChannel topic schemaName metadata) u =
     snd (CreateChannel topic schemaName metadata u)"
| "exec (Op_WriteMessage channelID data logTime publishTime) u =
     snd (WriteMessage channelID data logTime publishTime u)"
| "exec Op_Close u = snd (Close u)"

definition run :: "op list \<Rightarrow> UnifiedMcapWriter \<Rightarrow> UnifiedMcapWriter" where
  "run ops u = fold exec ops u"

text \<open>The calls that register a schema under a given name.\<close>

fun registers :: "string \<Rightarrow> op \<Rightarrow> bool" where
  "registers name (Op_RegisterSchema schemaName) = (schemaName = name)"
| "registers name (Op_AddCustomSchema schemaName schema) = (schemaName = name)"
| "registers name (Op_CreateChannel topic schemaName md) = False"
| "registers name (Op_WriteMessage cid payload logTime publishTime) = False"
| "registers name Op_Close = False"

text \<open>
  The bookkeeping of the writer agrees with the stream: the accepted schema
  records carry the ids \<open>1, 2, 3, \<dots>\<close> (in \<^verbatim>\<open>uint16\<close> arithmetic) in stream
  order, the counter is one past the last of them, the name of a record is bound
  to its id, and no name has two records.
\<close>

definition schema_inv :: "UnifiedMcapWriter \<Rightarrow> bool" where
  "schema_inv u =
     (let S = written_schemas (world u)
      in map Schema.ID S = map word_of_nat [1..<Suc (length S)]
         \<and> nextSchemaID u = word_of_nat (Suc (length S))
         \<and> schemaIDs u = map_of (map (\<lambda>s. (Schema.Name s, Schema.ID s)) S)
         \<and> distinct (map Schema.Name S))"

definition channel_inv :: "UnifiedMcapWriter \<Rightarrow> bool" where
  "channel_inv u =
     (let C = written_channels (world u)
      in map Channel.ID C = map word_of_nat [1..<Suc (length C)]
         \<and> nextChannel u = word_of_nat (Suc (length C))
         \<and> channels u = map_of (map (\<lambda>c. (Topic c, Channel.ID c)) C)
         \<and> distinct (map Topic C))"

subsection \<open>The signal adapters\<close>

text \<open>
  \<^verbatim>\<open>strings.ReplaceAll\<close> for a non-empty pattern: non-overlapping matches are
  replaced from the left. (The adapter passes the pattern \<^verbatim>\<open>"."\<close>; Go's rule for
  the empty pattern is not needed and not modelled: the string is returned as it is.)
\<close>

fun ReplaceAll :: "string \<Rightarrow> string \<Rightarrow> string \<Rightarrow> string" where
  "ReplaceAll [] old new = []"
| "ReplaceAll (c # s) old new =
     (if old \<noteq> [] \<and> take (length old) (c # s) = old
      then new @ ReplaceAll (drop (length old) (c # s)) old new
      else c # ReplaceAll s old new)"

record LogMcapWriter =
  channelID :: "16 word"
  serviceName :: string
  serviceVersion :: string
  serviceEnvironment :: string

text \<open>
  The adapters hold a pointer to the shared unified writer; here the unified
  writer is passed in and returned next to the adapter.
\<close>

definition NewLogMcapWriter ::
  "ServiceOptions \<Rightarrow> UnifiedMcapWriter \<Rightarrow> (error + LogMcapWriter) \<times> UnifiedMcapWriter" where
  "NewLogMcapWriter serviceOpts unifiedWriter =
     (let serviceName = Name serviceOpts @ '' ('' @ Version serviceOpts @ '' | ''
                          @ Environment serviceOpts @ '')'';
          topic = ''/logs/'' @ Name serviceOpts;
          metadata = [''service'' \<mapsto> Name serviceOpts,
                      ''version'' \<mapsto> Version serviceOpts,
                      ''environment'' \<mapsto> Environment serviceOpts,
                      ''description'' \<mapsto> Description serviceOpts];
          (r, u) = CreateLogChannel topic metadata unifiedWriter
      in case r of
           Inl err \<Rightarrow> (Inl (CreateLogChannelFailed err), u)
         | Inr cid \<Rightarrow>
             (Inr \<lparr>channelID = cid, serviceName = serviceName,
                   serviceVersion = Version serviceOpts,
                   serviceEnvironment = Environment serviceOpts\<rparr>, u))"

record MetricMcapWriter =
  channels :: "string \<rightharpoonup> 16 word"
  serviceName :: string
  metadata :: "string \<rightharpoonup> string"

definition NewMetricMcapWriter :: "ServiceOptions \<Rightarrow> MetricMcapWriter" where
  "NewMetricMcapWriter serviceOpts =
     \<lparr>channels = Map.empty, serviceName = Name serviceOpts,
      metadata = [''service_name'' \<mapsto> Name serviceOpts,
                  ''version'' \<mapsto> Version serviceOpts,
                  ''environment'' \<mapsto> Environment serviceOpts]\<rparr>"

definition getOrCreateChannel ::
  "string \<Rightarrow> MetricMcapWriter \<Rightarrow> UnifiedMcapWriter
     \<Rightarrow> (error + 16 word) \<times> MetricMcapWriter \<times> UnifiedMcapWriter" where
  "getOrCreateChannel metricName m unifiedWriter =
     (case MetricMcapWriter.channels m metricName of
        Some cid \<Rightarrow> (Inr cid, m, unifiedWriter)
      | None \<Rightarrow>
          (let topic = ''/metrics/'' @ MetricMcapWriter.serviceName m @ ''/''
                         @ ReplaceAll metricName ''.'' ''/'';
               channelMetadata = (metadata m)(''metric_name'' \<mapsto> metricName);
               (r, u) = CreateMetricChannel topic channelMetadata unifiedWriter
           in case r of
                Inl err \<Rightarrow> (Inl (CreateChannelForFailed metricName err), m, u)
              | Inr cid \<Rightarrow>
                  (Inr cid,
                   m\<lparr>MetricMcapWriter.channels :=
                        (MetricMcapWriter.channels m)(metricName \<mapsto> cid)\<rparr>,
                   u)))"

subsection \<open>A recording session used as the running example\<close>

text \<open>
  Service \<^verbatim>\<open>svc\<close> records to \<^verbatim>\<open>/tmp/svc.mcap\<close>. \<open>no_errors\<close> is the
  world in which no call fails, \<open>fails_at k\<close> the one in which exactly the call
  number \<open>k\<close> (counted from 0) fails, \<open>fails_from k\<close> the one in which every call
  from number \<open>k\<close> on fails. \<open>svc_writer env\<close> is the writer that a
  successful construction returns in the world \<open>env\<close>: six calls were made, the
  last two wrote the schemas of the log records and of the metric samples.
\<close>

definition demo_service :: ServiceOptions where
  "demo_service =
     \<lparr>Name = ''svc'', Description = ''demo service'', Version = ''1.0.0'',
      Environment = ''development''\<rparr>"

definition demo_options :: FoxgloveOptions where
  "demo_options = \<lparr>Enabled = True, McapPath = ''/tmp/svc.mcap''\<rparr>"

definition no_errors :: "nat \<Rightarrow> string option" where
  "no_errors i = None"

definition fails_at :: "nat \<Rightarrow> nat \<Rightarrow> string option" where
  "fails_at k i = (if i = k then Some ''input/output error'' else None)"


definition svc_trace :: "(io_call \<times> string option) list" where
  "svc_trace =
     [(Call_MkdirAll ''/tmp/svc.mcap'', None),
      (Call_Create ''/tmp/svc.mcap'', None),
      (Call_NewWriter, None),
      (Call_WriteHeader \<lparr>Profile = ''svc'',
         Library = ''github.com/machanirobotics/pulse/go/''\<rparr>, None),
      (Call_WriteSchema \<lparr>Schema.ID = 1, Name = ''foxglove.Log'',
         Encoding = ''jsonschema'', Data = foxgloveLogSchema\<rparr>, None),
      (Call_WriteSchema \<lparr>Schema.ID = 2, Name = ''mahcanirobotics.metric'',
         Encoding = ''jsonschema'', Data = shokkiMetricSchema\<rparr>, None)]"

definition svc_writer :: "(nat \<Rightarrow> string option) \<Rightarrow> UnifiedMcapWriter" where
  "svc_writer env =
     \<lparr>world = \<lparr>trace = svc_trace, answers = env\<rparr>,
      filePath = ''/tmp/svc.mcap'', closed = False, registry = NewSchemaRegistry,
      schemaIDs = [''foxglove.Log'' \<mapsto> 1, ''mahcanirobotics.metric'' \<mapsto> 2],
      nextSchemaID = 3,
      UnifiedMcapWriter.channels = Map.empty, nextChannel = 1\<rparr>"

text \<open>A client that creates the log channel twice, registers the plot schema, writes a
  message and creates a metric channel.\<close>

definition demo_calls :: "op list" where
  "demo_calls =
     [Op_CreateChannel ''/logs/svc'' ''foxglove.Log'' Map.empty,
      Op_RegisterSchema ''foxglove.Plot'',
      Op_CreateChannel ''/logs/svc'' ''foxglove.Log'' Map.empty,
      Op_WriteMessage 1 ''{}'' 7 7,
      Op_CreateChannel ''/metrics/svc/cpu/load'' ''mahcanirobotics.metric'' Map.empty]"

text \<open>A client that never registers the plot schema.\<close>

definition quiet_calls :: "op list" where
  "quiet_calls =
     [Op_CreateChannel ''/logs/svc'' ''foxglove.Log'' Map.empty,
      Op_AddCustomSchema ''custom.schema'' ''{}'',
      Op_WriteMessage 1 ''{}'' 7 7]"

section \<open>Properties\<close>

subsection \<open>Auxiliary facts\<close>

lemma extcall_eq:
  "extcall c w = (answers w (length (trace w)),
                  w\<lparr>trace := trace w @ [(c, answers w (length (trace w)))]\<rparr>)"
  by (simp add: extcall_def Let_def)

lemma written_schemas_snoc [simp]:
  "written_schemas (w\<lparr>trace := trace w @ [e]\<rparr>) = written_schemas w @ schema_of_event e"
  by (simp add: written_schemas_def)

lemma written_channels_snoc [simp]:
  "written_channels (w\<lparr>trace := trace w @ [e]\<rparr>) = written_channels w @ channel_of_event e"
  by (simp add: written_channels_def)

lemma map_of_snoc_fresh:
  "map_of xs k = None \<Longrightarrow> map_of (xs @ [(k, v)]) = (map_of xs)(k \<mapsto> v)"
  by (auto simp: fun_eq_iff map_add_def split: option.splits)

lemma RegisterSchema_cases:
  obtains
    (bound) i where "schemaIDs u n = Some i" "RegisterSchema n u = (None, u)"
  | (unknown) "schemaIDs u n = None" "Get (registry u) n = None"
      "RegisterSchema n u = (Some (SchemaNotFound n), u)"
  | (failed) d e where "schemaIDs u n = None" "Get (registry u) n = Some d"
      "answers (world u) (length (trace (world u))) = Some e"
      "RegisterSchema n u =
         (Some (WriteSchemaFailed n e),
          u\<lparr>world := (world u)\<lparr>trace := trace (world u) @
             [(Call_WriteSchema \<lparr>Schema.ID = nextSchemaID u, Name = n,
                 Encoding = ''jsonschema'', Data = d\<rparr>, Some e)]\<rparr>\<rparr>)"
  | (written) d where "schemaIDs u n = None" "Get (registry u) n = Some d"
      "answers (world u) (length (trace (world u))) = None"
      "RegisterSchema n u =
         (None,
          u\<lparr>world := (world u)\<lparr>trace := trace (world u) @
             [(Call_WriteSchema \<lparr>Schema.ID = nextSchemaID u, Name = n,
                 Encoding = ''jsonschema'', Data = d\<rparr>, None)]\<rparr>,
            schemaIDs := (schemaIDs u)(n \<mapsto> nextSchemaID u),
            nextSchemaID := nextSchemaID u + 1\<rparr>)"
proof (cases "schemaIDs u n")
  case (Some i)
  then show ?thesis using bound by (simp add: RegisterSchema_def)
next
  case None
  note unbound = this
  show ?thesis
  proof (cases "Get (registry u) n")
    case None
    then show ?thesis using unbound unknown by (simp add: RegisterSchema_def)
  next
    case (Some d)
    show ?thesis
    proof (cases "answers (world u) (length (trace (world u)))")
      case None
      then show ?thesis using unbound Some written [of d]
        by (simp add: RegisterSchema_def extcall_eq Let_def)
    next
      case (Some e)
      then show ?thesis using unbound \<open>Get (registry u) n = Some d\<close> failed [of d e]
        by (simp add: RegisterSchema_def extcall_eq Let_def)
    qed
  qed
qed

lemma bookkeeping_snoc:
  fixes key :: "'a \<Rightarrow> string" and ident :: "'a \<Rightarrow> 16 word"
  assumes ids: "map ident xs = map word_of_nat [1..<Suc (length xs)]"
    and m: "m = map_of (map (\<lambda>x. (key x, ident x)) xs)"
    and dist: "distinct (map key xs)"
    and fresh: "m (key y) = None"
    and next_id: "ident y = word_of_nat (Suc (length xs))"
  shows "map ident (xs @ [y]) = map word_of_nat [1..<Suc (length (xs @ [y]))]"
    and "m(key y \<mapsto> ident y) = map_of (map (\<lambda>x. (key x, ident x)) (xs @ [y]))"
    and "distinct (map key (xs @ [y]))"
    and "ident y + 1 = word_of_nat (Suc (length (xs @ [y])))"
proof -
  show "map ident (xs @ [y]) = map word_of_nat [1..<Suc (length (xs @ [y]))]"
    using ids next_id by simp
  show "m(key y \<mapsto> ident y) = map_of (map (\<lambda>x. (key x, ident x)) (xs @ [y]))"
    using fresh unfolding m by (auto simp: fun_eq_iff map_add_def split: option.splits)
  have "key y \<notin> set (map key xs)"
    using fresh unfolding m by (auto simp: map_of_eq_None_iff image_iff)
  then show "distinct (map key (xs @ [y]))"
    using dist by simp
  show "ident y + 1 = word_of_nat (Suc (length (xs @ [y])))"
    using next_id by simp
qed

lemma RegisterSchema_schema_inv:
  assumes "schema_inv u"
  shows "schema_inv (snd (RegisterSchema n u))"
proof (cases rule: RegisterSchema_cases [of u n])
  case (bound i)
  then show ?thesis using assms by simp
next
  case unknown
  then show ?thesis using assms by simp
next
  case (failed d e)
  then show ?thesis using assms by (simp add: schema_inv_def)
next
  case (written d)
  let ?S = "written_schemas (world u)"
  let ?y = "\<lparr>Schema.ID = nextSchemaID u, Name = n, Encoding = ''jsonschema'', Data = d\<rparr>"
  from assms have inv: "map Schema.ID ?S = map word_of_nat [1..<Suc (length ?S)]"
      "nextSchemaID u = word_of_nat (Suc (length ?S))"
      "schemaIDs u = map_of (map (\<lambda>s. (Schema.Name s, Schema.ID s)) ?S)"
      "distinct (map Schema.Name ?S)"
    by (simp_all add: schema_inv_def Let_def)
  have fresh: "schemaIDs u (Schema.Name ?y) = None" and nxt: "Schema.ID ?y = word_of_nat (Suc (length ?S))"
    using written(1) inv(2) by simp_all
  note step = bookkeeping_snoc [OF inv(1) inv(3) inv(4) fresh nxt]
  have "schema_inv (u\<lparr>world := (world u)\<lparr>trace := trace (world u) @ [(Call_WriteSchema ?y, None)]\<rparr>,
            schemaIDs := (schemaIDs u)(n \<mapsto> nextSchemaID u),
            nextSchemaID := nextSchemaID u + 1\<rparr>)"
    unfolding schema_inv_def Let_def using step by simp
  then show ?thesis using written(4) by simp
qed

lemma CreateChannel_cases:
  obtains
    (bound) i where "UnifiedMcapWriter.channels u t = Some i"
      "CreateChannel t n md u = (Inr i, u)"
  | (unregistered) "UnifiedMcapWriter.channels u t = None" "schemaIDs u n = None"
      "CreateChannel t n md u = (Inl (SchemaNotRegistered n), u)"
  | (failed) sid e where "UnifiedMcapWriter.channels u t = None" "schemaIDs u n = Some sid"
      "answers (world u) (length (trace (world u))) = Some e"
      "CreateChannel t n md u =
         (Inl (CreateChannelFailed e),
          u\<lparr>world := (world u)\<lparr>trace := trace (world u) @
             [(Call_WriteChannel \<lparr>Channel.ID = nextChannel u, SchemaID = sid, Topic = t,
                 MessageEncoding = ''json'', Metadata = md\<rparr>, Some e)]\<rparr>\<rparr>)"
  | (written) sid where "UnifiedMcapWriter.channels u t = None" "schemaIDs u n = Some sid"
      "answers (world u) (length (trace (world u))) = None"
      "CreateChannel t n md u =
         (Inr (nextChannel u),
          u\<lparr>world := (world u)\<lparr>trace := trace (world u) @
             [(Call_WriteChannel \<lparr>Channel.ID = nextChannel u, SchemaID = sid, Topic = t,
                 MessageEncoding = ''json'', Metadata = md\<rparr>, None)]\<rparr>,
            UnifiedMcapWriter.channels := (UnifiedMcapWriter.channels u)(t \<mapsto> nextChannel u),
            nextChannel := nextChannel u + 1\<rparr>)"
proof (cases "UnifiedMcapWriter.channels u t")
  case (Some i)
  then show ?thesis using bound by (simp add: CreateChannel_def)
next
  case None
  note unbound = this
  show ?thesis
  proof (cases "schemaIDs u n")
    case None
    then show ?thesis using unbound unregistered by (simp add: CreateChannel_def)
  next
    case (Some sid)
    show ?thesis
    proof (cases "answers (world u) (length (trace (world u)))")
      case None
      then show ?thesis using unbound Some written [of sid]
        by (simp add: CreateChannel_def extcall_eq Let_def)
    next
      case (Some e)
      then show ?thesis using unbound \<open>schemaIDs u n = Some sid\<close> failed [of sid e]
        by (simp add: CreateChannel_def extcall_eq Let_def)
    qed
  qed
qed

lemma CreateChannel_channel_inv:
  assumes "channel_inv u"
  shows "channel_inv (snd (CreateChannel t n md u))"
proof (cases rule: CreateChannel_cases [of u t n md])
  case (bound i)
  then show ?thesis using assms by simp
next
  case unregistered
  then show ?thesis using assms by simp
next
  case (failed sid e)
  then show ?thesis using assms by (simp add: channel_inv_def)
next
  case (written sid)
  let ?C = "written_channels (world u)"
  let ?y = "\<lparr>Channel.ID = nextChannel u, SchemaID = sid, Topic = t,
             MessageEncoding = ''json'', Metadata = md\<rparr>"
  from assms have inv: "map Channel.ID ?C = map word_of_nat [1..<Suc (length ?C)]"
      "nextChannel u = word_of_nat (Suc (length ?C))"
      "UnifiedMcapWriter.channels u = map_of (map (\<lambda>c. (Topic c, Channel.ID c)) ?C)"
      "distinct (map Topic ?C)"
    by (simp_all add: channel_inv_def Let_def)
  have fresh: "UnifiedMcapWriter.channels u (Topic ?y) = None"
    and nxt: "Channel.ID ?y = word_of_nat (Suc (length ?C))"
    using written(1) inv(2) by simp_all
  note step = bookkeeping_snoc [OF inv(1) inv(3) inv(4) fresh nxt]
  have "channel_inv (u\<lparr>world := (world u)\<lparr>trace := trace (world u) @ [(Call_WriteChannel ?y, None)]\<rparr>,
            UnifiedMcapWriter.channels := (UnifiedMcapWriter.channels u)(t \<mapsto> nextChannel u),
            nextChannel := nextChannel u + 1\<rparr>)"
    unfolding channel_inv_def Let_def using step by simp
  then show ?thesis using written(4) by simp
qed

lemma CreateChannel_schema_inv:
  assumes "schema_inv u"
  shows "schema_inv (snd (CreateChannel t n md u))"
  using assms
  by (cases rule: CreateChannel_cases [of u t n md]) (simp_all add: schema_inv_def)

lemma RegisterSchema_channel_inv:
  assumes "channel_inv u"
  shows "channel_inv (snd (RegisterSchema n u))"
  using assms
  by (cases rule: RegisterSchema_cases [of u n]) (simp_all add: channel_inv_def)

lemma registry_update_inv [simp]:
  "schema_inv (u\<lparr>registry := r\<rparr>) = schema_inv u"
  "channel_inv (u\<lparr>registry := r\<rparr>) = channel_inv u"
  by (simp_all add: schema_inv_def channel_inv_def)

lemma AddCustomSchema_inv:
  "schema_inv u \<Longrightarrow> schema_inv (snd (AddCustomSchema n d u))"
  "channel_inv u \<Longrightarrow> channel_inv (snd (AddCustomSchema n d u))"
  by (simp_all add: AddCustomSchema_def RegisterSchema_schema_inv RegisterSchema_channel_inv)

lemma WriteMessage_eq:
  "WriteMessage c d lt pt u =
     (map_option McapError (answers (world u) (length (trace (world u)))),
      u\<lparr>world := (world u)\<lparr>trace := trace (world u) @
         [(Call_WriteMessage \<lparr>ChannelID = c, Sequence = 0, LogTime = lt,
             PublishTime = pt, Data = d\<rparr>,
           answers (world u) (length (trace (world u))))]\<rparr>\<rparr>)"
  by (simp add: WriteMessage_def extcall_eq)

lemma WriteMessage_inv:
  "schema_inv u \<Longrightarrow> schema_inv (snd (WriteMessage c d lt pt u))"
  "channel_inv u \<Longrightarrow> channel_inv (snd (WriteMessage c d lt pt u))"
  by (simp_all add: WriteMessage_eq schema_inv_def channel_inv_def)

lemma Close_cases:
  obtains
    (already) "closed u" "Close u = (None, u)"
  | (codec_failed) e where "\<not> closed u"
      "answers (world u) (length (trace (world u))) = Some e"
      "Close u =
         (Some (CloseWriterFailed e),
          u\<lparr>world := (world u)\<lparr>trace := trace (world u) @
             [(Call_WriterClose, Some e),
              (Call_FileClose, answers (world u) (Suc (length (trace (world u)))))]\<rparr>\<rparr>)"
  | (file_failed) e where "\<not> closed u"
      "answers (world u) (length (trace (world u))) = None"
      "answers (world u) (Suc (length (trace (world u)))) = Some e"
      "Close u =
         (Some (CloseFileFailed e),
          u\<lparr>world := (world u)\<lparr>trace := trace (world u) @
             [(Call_WriterClose, None), (Call_FileClose, Some e)]\<rparr>\<rparr>)"
  | (finalized) "\<not> closed u"
      "answers (world u) (length (trace (world u))) = None"
      "answers (world u) (Suc (length (trace (world u)))) = None"
      "Close u =
         (None,
          u\<lparr>world := (world u)\<lparr>trace := trace (world u) @
             [(Call_WriterClose, None), (Call_FileClose, None)]\<rparr>,
            closed := True\<rparr>)"
proof (cases "closed u")
  case True
  then show ?thesis using already by (simp add: Close_def)
next
  case False
  note open_state = this
  show ?thesis
  proof (cases "answers (world u) (length (trace (world u)))")
    case (Some e)
    then show ?thesis using open_state codec_failed [of e]
      by (simp add: Close_def extcall_eq)
  next
    case None
    note codec_ok = this
    show ?thesis
    proof (cases "answers (world u) (Suc (length (trace (world u))))")
      case None
      then show ?thesis using open_state codec_ok finalized
        by (simp add: Close_def extcall_eq)
    next
      case (Some e)
      then show ?thesis using open_state codec_ok file_failed [of e]
        by (simp add: Close_def extcall_eq)
    qed
  qed
qed

lemma Close_inv:
  "schema_inv u \<Longrightarrow> schema_inv (snd (Close u))"
  "channel_inv u \<Longrightarrow> channel_inv (snd (Close u))"
  by (cases rule: Close_cases [of u]; simp add: schema_inv_def channel_inv_def written_schemas_def written_channels_def)+

lemma exec_inv:
  "schema_inv u \<Longrightarrow> schema_inv (exec a u)"
  "channel_inv u \<Longrightarrow> channel_inv (exec a u)"
  by (cases a; simp add: RegisterSchema_schema_inv RegisterSchema_channel_inv
        CreateChannel_schema_inv CreateChannel_channel_inv AddCustomSchema_inv
        WriteMessage_inv Close_inv)+

lemma run_inv:
  "schema_inv u \<Longrightarrow> schema_inv (run ops u)"
  "channel_inv u \<Longrightarrow> channel_inv (run ops u)"
  unfolding run_def
  by (induction ops arbitrary: u) (simp_all add: exec_inv)

lemma NewUnifiedMcapWriter_success:
  assumes "NewUnifiedMcapWriter so fo env = Inr u"
  shows "u = \<lparr>world = \<lparr>trace =
                 [(Call_MkdirAll (McapPath fo), None),
                  (Call_Create (McapPath fo), None),
                  (Call_NewWriter, None),
                  (Call_WriteHeader \<lparr>Profile = ServiceOptions.Name so,
                     Library = ''github.com/machanirobotics/pulse/go/''\<rparr>, None),
                  (Call_WriteSchema \<lparr>Schema.ID = 1, Name = ''foxglove.Log'',
                     Encoding = ''jsonschema'', Data = foxgloveLogSchema\<rparr>, None),
                  (Call_WriteSchema \<lparr>Schema.ID = 2, Name = ''mahcanirobotics.metric'',
                     Encoding = ''jsonschema'', Data = shokkiMetricSchema\<rparr>, None)],
                 answers = env\<rparr>,
              filePath = McapPath fo, closed = False, registry = NewSchemaRegistry,
              schemaIDs = [''foxglove.Log'' \<mapsto> 1, ''mahcanirobotics.metric'' \<mapsto> 2],
              nextSchemaID = 3,
              UnifiedMcapWriter.channels = Map.empty, nextChannel = 1\<rparr>"
  using assms
  by (simp add: NewUnifiedMcapWriter_def extcall_eq registerBuiltInSchemas_def
        RegisterSchema_def Get_def NewSchemaRegistry_def Let_def
      split: if_splits option.splits)

lemma svc_writer_opened:
  assumes "\<forall>i<6. env i = None"
  shows "NewUnifiedMcapWriter demo_service demo_options env = Inr (svc_writer env)"
proof -
  have ok: "\<And>i. i < 6 \<Longrightarrow> env i = None"
    using assms by simp
  show ?thesis
    by (simp add: NewUnifiedMcapWriter_def extcall_eq registerBuiltInSchemas_def
          RegisterSchema_def Get_def NewSchemaRegistry_def Let_def demo_service_def
          demo_options_def svc_writer_def svc_trace_def ok)
qed

lemma opened_inv:
  assumes "NewUnifiedMcapWriter so fo env = Inr u"
  shows "schema_inv u" "channel_inv u"
  unfolding NewUnifiedMcapWriter_success [OF assms]
  by (simp_all add: schema_inv_def channel_inv_def written_schemas_def written_channels_def fun_eq_iff)

lemmas eval_writer =
  run_def RegisterSchema_def AddCustomSchema_def Register_def CreateChannel_def
  CreateLogChannel_def CreateMetricChannel_def WriteMessage_def Close_def IsClosed_def
  extcall_eq Get_def NewSchemaRegistry_def Let_def svc_writer_def svc_trace_def
  no_errors_def fails_at_def written_schemas_def written_channels_def

lemma unat_ids:
  assumes "n < 65536"
  shows "map unat (map (word_of_nat :: nat \<Rightarrow> 16 word) [1..<Suc n]) = [1..<Suc n]"
proof -
  have "unat (word_of_nat i :: 16 word) = i" if "i \<in> set [1..<Suc n]" for i
  proof -
    from that assms have "i < 65536" by (simp del: upt_Suc)
    then show ?thesis by (simp add: unat_of_nat)
  qed
  then have "map (\<lambda>i. unat (word_of_nat i :: 16 word)) [1..<Suc n] = map (\<lambda>i. i) [1..<Suc n]"
    by (intro map_cong) auto
  then show ?thesis by (simp add: comp_def)
qed

lemma reachable_inv:
  assumes "NewUnifiedMcapWriter so fo env = Inr u0"
  shows "schema_inv (run ops u0)" "channel_inv (run ops u0)"
  using opened_inv [OF assms] by (simp_all add: run_inv)

lemma fresh_channel_id:
  assumes "channel_inv u" "UnifiedMcapWriter.channels u t = None"
    "CreateChannel t n md u = (Inr c, u')"
  shows "c = word_of_nat (Suc (length (written_channels (world u))))"
  using assms
  by (cases rule: CreateChannel_cases [of u t n md]) (simp_all add: channel_inv_def Let_def)

lemma unique_record:
  assumes "distinct (map key xs)"
    and "map_of (map (\<lambda>x. (key x, ident x)) xs) k = Some v"
  shows "map ident (filter (\<lambda>x. key x = k) xs) = [v]"
  using assms
proof (induction xs)
  case Nil
  then show ?case by simp
next
  case (Cons x xs)
  show ?case
  proof (cases "key x = k")
    case True
    with Cons.prems have "k \<notin> key ` set xs" and "ident x = v"
      by auto
    then have "filter (\<lambda>y. key y = k) xs = []"
      by (auto simp: filter_empty_conv)
    with True \<open>ident x = v\<close> show ?thesis by simp
  next
    case False
    with Cons show ?thesis by simp
  qed
qed



lemma Close_codec_failure_stays_open:
  assumes "\<not> closed u" "answers (world u) (length (trace (world u))) = Some e"
  shows "fst (Close u) = Some (CloseWriterFailed e)"
    and "\<not> closed (snd (Close u))"
    and "map fst (trace (world (snd (Close u)))) =
           map fst (trace (world u)) @ [Call_WriterClose, Call_FileClose]"
  using assms by (cases rule: Close_cases [of u]; simp)+

lemma ReplaceAll_single:
  "ReplaceAll s [a] [b] = map (\<lambda>c. if c = a then b else c) s"
  by (induction s) simp_all

lemma exec_keeps_unbound:
  assumes "\<not> registers n a" and "schemaIDs u n = None"
  shows "schemaIDs (exec a u) n = None"
proof (cases a)
  case (Op_RegisterSchema m)
  with assms show ?thesis
    by (cases rule: RegisterSchema_cases [of u m]) simp_all
next
  case (Op_AddCustomSchema m d)
  with assms show ?thesis
    by (cases rule: RegisterSchema_cases [of "u\<lparr>registry := Register m d (registry u)\<rparr>" m])
      (simp_all add: AddCustomSchema_def)
next
  case (Op_CreateChannel t m md)
  with assms show ?thesis
    by (cases rule: CreateChannel_cases [of u t m md]) simp_all
next
  case (Op_WriteMessage c d lt pt)
  with assms show ?thesis by (simp add: WriteMessage_eq)
next
  case Op_Close
  with assms show ?thesis by (cases rule: Close_cases [of u]) simp_all
qed

lemma exec_keeps_definition:
  assumes "\<not> registers n a"
  shows "Get (registry (exec a u)) n = Get (registry u) n"
proof (cases a)
  case (Op_RegisterSchema m)
  then show ?thesis
    by (cases rule: RegisterSchema_cases [of u m]) simp_all
next
  case (Op_AddCustomSchema m d)
  with assms show ?thesis
    by (cases rule: RegisterSchema_cases [of "u\<lparr>registry := Register m d (registry u)\<rparr>" m])
      (simp_all add: AddCustomSchema_def Get_def Register_def)
next
  case (Op_CreateChannel t m md)
  then show ?thesis
    by (cases rule: CreateChannel_cases [of u t m md]) simp_all
next
  case (Op_WriteMessage c d lt pt)
  then show ?thesis by (simp add: WriteMessage_eq)
next
  case Op_Close
  then show ?thesis by (cases rule: Close_cases [of u]) simp_all
qed

lemma run_keeps_unbound:
  assumes "\<forall>a\<in>set ops. \<not> registers n a" and "schemaIDs u n = None"
  shows "schemaIDs (run ops u) n = None"
  using assms unfolding run_def
  by (induction ops arbitrary: u) (simp_all add: exec_keeps_unbound)

lemma run_keeps_definition:
  assumes "\<forall>a\<in>set ops. \<not> registers n a"
  shows "Get (registry (run ops u)) n = Get (registry u) n"
  using assms unfolding run_def
  by (induction ops arbitrary: u) (simp_all add: exec_keeps_definition)

lemma unbound_unwritten:
  assumes "schema_inv u" and "schemaIDs u n = None"
  shows "n \<notin> Schema.Name ` set (written_schemas (world u))"
proof -
  from assms have "map_of (map (\<lambda>s. (Schema.Name s, Schema.ID s)) (written_schemas (world u))) n = None"
    by (simp add: schema_inv_def Let_def)
  then show ?thesis
    by (auto simp: map_of_eq_None_iff image_iff)
qed

subsection \<open>Schemas bound at construction\<close>

text \<open>
  Claim C1, as amended. Whenever \<^verbatim>\<open>NewUnifiedMcapWriter\<close> succeeds, exactly the
  two schemas named by \<^verbatim>\<open>registerBuiltInSchemas\<close> are bound and written:
  \<^verbatim>\<open>foxglove.Log\<close> with id 1 and \<^verbatim>\<open>mahcanirobotics.metric\<close> with id 2, and the
  next schema id is 3. The third built-in text, \<^verbatim>\<open>foxglove.Plot\<close>, is seeded in
  the registry but has no id and no record. It stays so, with its text in the
  registry, through every sequence of calls in which no \<^verbatim>\<open>RegisterSchema\<close> or
  \<^verbatim>\<open>AddCustomSchema\<close> names it; a \<^verbatim>\<open>RegisterSchema\<close> for it that the codec
  accepts then binds it to the next schema id and writes its record.
\<close>

theorem open_binds_two_builtin_schemas:
  assumes "NewUnifiedMcapWriter serviceOpts foxgloveOpts env = Inr u"
  shows "schemaIDs u = [''foxglove.Log'' \<mapsto> 1, ''mahcanirobotics.metric'' \<mapsto> 2]
       \<and> nextSchemaID u = 3
       \<and> written_schemas (world u) =
           [\<lparr>Schema.ID = 1, Name = ''foxglove.Log'', Encoding = ''jsonschema'',
              Data = foxgloveLogSchema\<rparr>,
            \<lparr>Schema.ID = 2, Name = ''mahcanirobotics.metric'', Encoding = ''jsonschema'',
              Data = shokkiMetricSchema\<rparr>]
       \<and> Get (registry u) ''foxglove.Plot'' = Some foxglovePlotSchema
       \<and> schemaIDs u ''foxglove.Plot'' = None
       \<and> (\<forall>ops. (\<forall>a\<in>set ops. \<not> registers ''foxglove.Plot'' a) \<longrightarrow>
             schemaIDs (run ops u) ''foxglove.Plot'' = None
             \<and> ''foxglove.Plot'' \<notin> Schema.Name ` set (written_schemas (world (run ops u)))
             \<and> Get (registry (run ops u)) ''foxglove.Plot'' = Some foxglovePlotSchema
             \<and> (answers (world (run ops u)) (length (trace (world (run ops u)))) = None \<longrightarrow>
                  fst (RegisterSchema ''foxglove.Plot'' (run ops u)) = None
                  \<and> schemaIDs (snd (RegisterSchema ''foxglove.Plot'' (run ops u)))
                       ''foxglove.Plot'' = Some (nextSchemaID (run ops u))
                  \<and> written_schemas (world (snd (RegisterSchema ''foxglove.Plot'' (run ops u)))) =
                       written_schemas (world (run ops u)) @
                         [\<lparr>Schema.ID = nextSchemaID (run ops u), Name = ''foxglove.Plot'',
                            Encoding = ''jsonschema'', Data = foxglovePlotSchema\<rparr>]))"
proof -
  note state = NewUnifiedMcapWriter_success [OF assms]
  have at_open: "schemaIDs u = [''foxglove.Log'' \<mapsto> 1, ''mahcanirobotics.metric'' \<mapsto> 2]
       \<and> nextSchemaID u = 3
       \<and> written_schemas (world u) =
           [\<lparr>Schema.ID = 1, Name = ''foxglove.Log'', Encoding = ''jsonschema'',
              Data = foxgloveLogSchema\<rparr>,
            \<lparr>Schema.ID = 2, Name = ''mahcanirobotics.metric'', Encoding = ''jsonschema'',
              Data = shokkiMetricSchema\<rparr>]
       \<and> Get (registry u) ''foxglove.Plot'' = Some foxglovePlotSchema
       \<and> schemaIDs u ''foxglove.Plot'' = None"
    unfolding state by (simp add: written_schemas_def Get_def NewSchemaRegistry_def)
  have later: "schemaIDs (run ops u) ''foxglove.Plot'' = None
             \<and> ''foxglove.Plot'' \<notin> Schema.Name ` set (written_schemas (world (run ops u)))
             \<and> Get (registry (run ops u)) ''foxglove.Plot'' = Some foxglovePlotSchema
             \<and> (answers (world (run ops u)) (length (trace (world (run ops u)))) = None \<longrightarrow>
                  fst (RegisterSchema ''foxglove.Plot'' (run ops u)) = None
                  \<and> schemaIDs (snd (RegisterSchema ''foxglove.Plot'' (run ops u)))
                       ''foxglove.Plot'' = Some (nextSchemaID (run ops u))
                  \<and> written_schemas (world (snd (RegisterSchema ''foxglove.Plot'' (run ops u)))) =
                       written_schemas (world (run ops u)) @
                         [\<lparr>Schema.ID = nextSchemaID (run ops u), Name = ''foxglove.Plot'',
                            Encoding = ''jsonschema'', Data = foxglovePlotSchema\<rparr>])"
    if quiet: "\<forall>a\<in>set ops. \<not> registers ''foxglove.Plot'' a" for ops
  proof -
    let ?v = "run ops u"
    have unbound: "schemaIDs ?v ''foxglove.Plot'' = None"
      using run_keeps_unbound [OF quiet] at_open by simp
    have unwritten: "''foxglove.Plot'' \<notin> Schema.Name ` set (written_schemas (world ?v))"
      using unbound_unwritten [OF reachable_inv(1) [OF assms] unbound] .
    have seeded: "Get (registry ?v) ''foxglove.Plot'' = Some foxglovePlotSchema"
      using run_keeps_definition [OF quiet, of u] at_open by simp
    have binds: "fst (RegisterSchema ''foxglove.Plot'' ?v) = None
        \<and> schemaIDs (snd (RegisterSchema ''foxglove.Plot'' ?v)) ''foxglove.Plot''
             = Some (nextSchemaID ?v)
        \<and> written_schemas (world (snd (RegisterSchema ''foxglove.Plot'' ?v))) =
             written_schemas (world ?v) @
               [\<lparr>Schema.ID = nextSchemaID ?v, Name = ''foxglove.Plot'',
                  Encoding = ''jsonschema'', Data = foxglovePlotSchema\<rparr>]"
      if "answers (world ?v) (length (trace (world ?v))) = None"
      using that unbound seeded
      by (cases rule: RegisterSchema_cases [of ?v "''foxglove.Plot''"]) simp_all
    from unbound unwritten seeded binds show ?thesis by blast
  qed
  from at_open later show ?thesis by blast
qed

theorem open_binds_two_builtin_schemas_witness:
  "NewUnifiedMcapWriter demo_service demo_options no_errors = Inr (svc_writer no_errors)
   \<and> schemaIDs (svc_writer no_errors) ''foxglove.Log'' = Some 1
   \<and> schemaIDs (svc_writer no_errors) ''mahcanirobotics.metric'' = Some 2
   \<and> nextSchemaID (svc_writer no_errors) = 3
   \<and> length (written_schemas (world (svc_writer no_errors))) = 2
   \<and> Get (registry (svc_writer no_errors)) ''foxglove.Plot'' = Some foxglovePlotSchema
   \<and> schemaIDs (svc_writer no_errors) ''foxglove.Plot'' = None
   \<and> list_all (\<lambda>a. \<not> registers ''foxglove.Plot'' a) quiet_calls
   \<and> schemaIDs (run quiet_calls (svc_writer no_errors)) ''foxglove.Plot'' = None
   \<and> map Schema.Name (written_schemas (world (run quiet_calls (svc_writer no_errors)))) =
        [''foxglove.Log'', ''mahcanirobotics.metric'', ''custom.schema'']
   \<and> ''foxglove.Plot'' \<notin>
        Schema.Name ` set (written_schemas (world (run quiet_calls (svc_writer no_errors))))
   \<and> fst (RegisterSchema ''foxglove.Plot'' (run quiet_calls (svc_writer no_errors))) = None
   \<and> schemaIDs (snd (RegisterSchema ''foxglove.Plot'' (run quiet_calls (svc_writer no_errors))))
        ''foxglove.Plot'' = Some 4"
proof -
  have opened: "NewUnifiedMcapWriter demo_service demo_options no_errors = Inr (svc_writer no_errors)"
    by (rule svc_writer_opened) (simp add: no_errors_def)
  have quiet: "\<forall>a\<in>set quiet_calls. \<not> registers ''foxglove.Plot'' a"
    by (simp add: quiet_calls_def)
  have accepted: "answers (world (run quiet_calls (svc_writer no_errors)))
      (length (trace (world (run quiet_calls (svc_writer no_errors))))) = None"
    and next_id: "nextSchemaID (run quiet_calls (svc_writer no_errors)) = 4"
    and names: "map Schema.Name (written_schemas (world (run quiet_calls (svc_writer no_errors)))) =
        [''foxglove.Log'', ''mahcanirobotics.metric'', ''custom.schema'']"
    by (simp_all add: quiet_calls_def eval_writer)
  note inst = open_binds_two_builtin_schemas [OF opened]
  note at_open = inst [THEN conjunct1] inst [THEN conjunct2, THEN conjunct1]
    inst [THEN conjunct2, THEN conjunct2, THEN conjunct1]
    inst [THEN conjunct2, THEN conjunct2, THEN conjunct2, THEN conjunct1]
    inst [THEN conjunct2, THEN conjunct2, THEN conjunct2, THEN conjunct2, THEN conjunct1]
  note later = inst [THEN conjunct2, THEN conjunct2, THEN conjunct2, THEN conjunct2,
    THEN conjunct2, THEN spec, THEN mp, OF quiet]
  note binds = later [THEN conjunct2, THEN conjunct2, THEN conjunct2, THEN mp, OF accepted]
  from opened at_open later binds names next_id quiet show ?thesis
    by (simp add: list_all_iff)
qed

text \<open>
  Claim C1 as stated fails: after a successful construction of the example
  writer the name \<^verbatim>\<open>foxglove.Plot\<close> is not bound to an id (so not to 3), and
  the schema counter stands at 3, so that only ids 1 and 2 have been given out.
\<close>

theorem open_leaves_plot_schema_unbound:
  "NewUnifiedMcapWriter demo_service demo_options no_errors = Inr (svc_writer no_errors)
   \<and> schemaIDs (svc_writer no_errors) ''foxglove.Plot'' = None
   \<and> nextSchemaID (svc_writer no_errors) = 3"
proof -
  have "NewUnifiedMcapWriter demo_service demo_options no_errors = Inr (svc_writer no_errors)"
    by (rule svc_writer_opened) (simp add: no_errors_def)
  then show ?thesis by (simp add: svc_writer_def)
qed

subsection \<open>Identifier allocation\<close>

text \<open>
  Claim C2, as amended. Schema ids and channel ids come from two separate
  counters, each starting at 1. After a successful construction and any sequence
  of calls, the accepted schema records carry, in stream order, the ids
  \<open>1, 2, 3, \<dots>\<close> and so do the accepted channel records, each kind counted on
  its own (in \<^verbatim>\<open>uint16\<close> arithmetic; read as numbers they are \<open>1, \<dots>, k\<close>, hence
  without reuse or gap, as long as fewer than 65536 records of the kind exist). A
  \<^verbatim>\<open>CreateChannel\<close> that succeeds on an unbound topic returns one more than the
  number of channel records written so far. In particular, right after
  construction the first channel created (the log channel) receives id 1 and a
  second one on another topic (the metric channel) receives id 2.
\<close>

theorem ids_consecutive_per_kind:
  assumes "NewUnifiedMcapWriter serviceOpts foxgloveOpts env = Inr u0"
    and "u = run ops u0"
  shows "map Schema.ID (written_schemas (world u)) =
           map word_of_nat [1..<Suc (length (written_schemas (world u)))]
       \<and> map Channel.ID (written_channels (world u)) =
           map word_of_nat [1..<Suc (length (written_channels (world u)))]
       \<and> (length (written_schemas (world u)) < 65536 \<longrightarrow>
            map unat (map Schema.ID (written_schemas (world u))) =
              [1..<Suc (length (written_schemas (world u)))])
       \<and> (length (written_channels (world u)) < 65536 \<longrightarrow>
            map unat (map Channel.ID (written_channels (world u))) =
              [1..<Suc (length (written_channels (world u)))])
       \<and> (\<forall>topic schemaName md c u'.
            UnifiedMcapWriter.channels u topic = None \<and>
            CreateChannel topic schemaName md u = (Inr c, u') \<longrightarrow>
            c = word_of_nat (Suc (length (written_channels (world u)))))
       \<and> (\<forall>t1 md1 c1 u1 t2 md2 c2 u2.
            CreateLogChannel t1 md1 u0 = (Inr c1, u1) \<and>
            CreateMetricChannel t2 md2 u1 = (Inr c2, u2) \<and> t1 \<noteq> t2 \<longrightarrow>
            c1 = 1 \<and> c2 = 2)"
proof -
  let ?S = "written_schemas (world u)" and ?C = "written_channels (world u)"
  have sinv: "schema_inv u" and cinv: "channel_inv u"
    using reachable_inv [OF assms(1)] assms(2) by simp_all
  have s: "map Schema.ID ?S = map word_of_nat [1..<Suc (length ?S)]"
    using sinv by (simp add: schema_inv_def Let_def)
  have c: "map Channel.ID ?C = map word_of_nat [1..<Suc (length ?C)]"
    using cinv by (simp add: channel_inv_def Let_def)
  have su: "map unat (map Schema.ID ?S) = [1..<Suc (length ?S)]" if "length ?S < 65536"
    using unat_ids [OF that] s by simp
  have cu: "map unat (map Channel.ID ?C) = [1..<Suc (length ?C)]" if "length ?C < 65536"
    using unat_ids [OF that] c by simp
  have fresh: "c = word_of_nat (Suc (length ?C))"
    if "UnifiedMcapWriter.channels u topic = None"
      "CreateChannel topic schemaName md u = (Inr c, u')"
    for topic schemaName md c u'
    using fresh_channel_id [OF cinv that] .
  have first_two: "c1 = 1 \<and> c2 = 2"
    if "CreateLogChannel t1 md1 u0 = (Inr c1, u1)"
      "CreateMetricChannel t2 md2 u1 = (Inr c2, u2)" "t1 \<noteq> t2"
    for t1 md1 c1 u1 t2 md2 c2 u2
    using that unfolding NewUnifiedMcapWriter_success [OF assms(1)]
    by (auto simp: CreateLogChannel_def CreateMetricChannel_def CreateChannel_def extcall_eq
          Let_def split: option.splits)
  show ?thesis
    using s c su cu fresh first_two by blast
qed

theorem ids_consecutive_per_kind_witness:
  "NewUnifiedMcapWriter demo_service demo_options no_errors = Inr (svc_writer no_errors)
   \<and> map Schema.ID (written_schemas (world (run demo_calls (svc_writer no_errors)))) = [1, 2, 3]
   \<and> map unat (map Schema.ID (written_schemas (world (run demo_calls (svc_writer no_errors)))))
        = [1, 2, 3]
   \<and> map Channel.ID (written_channels (world (run demo_calls (svc_writer no_errors)))) = [1, 2]
   \<and> map unat (map Channel.ID (written_channels (world (run demo_calls (svc_writer no_errors)))))
        = [1, 2]
   \<and> fst (CreateChannel ''/metrics/svc/heap'' ''mahcanirobotics.metric'' Map.empty
             (run demo_calls (svc_writer no_errors))) = Inr 3
   \<and> fst (CreateLogChannel ''/logs/svc'' Map.empty (svc_writer no_errors)) = Inr 1
   \<and> fst (CreateMetricChannel ''/metrics/svc/cpu/load'' Map.empty
             (snd (CreateLogChannel ''/logs/svc'' Map.empty (svc_writer no_errors)))) = Inr 2"
proof -
  have opened: "NewUnifiedMcapWriter demo_service demo_options no_errors = Inr (svc_writer no_errors)"
    by (rule svc_writer_opened) (simp add: no_errors_def)
  have ns: "length (written_schemas (world (run demo_calls (svc_writer no_errors)))) = 3"
    and nc: "length (written_channels (world (run demo_calls (svc_writer no_errors)))) = 2"
    by (simp_all add: demo_calls_def eval_writer)
  have third: "UnifiedMcapWriter.channels (run demo_calls (svc_writer no_errors)) ''/metrics/svc/heap'' = None"
    by (simp add: demo_calls_def eval_writer)
  obtain c u' where mk: "CreateChannel ''/metrics/svc/heap'' ''mahcanirobotics.metric'' Map.empty
             (run demo_calls (svc_writer no_errors)) = (Inr c, u')"
    by (simp add: demo_calls_def eval_writer)
  obtain c1 u1 where l: "CreateLogChannel ''/logs/svc'' Map.empty (svc_writer no_errors) = (Inr c1, u1)"
    by (simp add: eval_writer)
  obtain c2 u2 where m: "CreateMetricChannel ''/metrics/svc/cpu/load'' Map.empty u1 = (Inr c2, u2)"
    using l by (auto simp add: eval_writer)
  note inst = ids_consecutive_per_kind [OF opened refl, of demo_calls]
  note s_ids = inst [THEN conjunct1]
  note c_ids = inst [THEN conjunct2, THEN conjunct1]
  note s_nat = inst [THEN conjunct2, THEN conjunct2, THEN conjunct1, rule_format]
  note c_nat = inst [THEN conjunct2, THEN conjunct2, THEN conjunct2, THEN conjunct1, rule_format]
  note fresh = inst [THEN conjunct2, THEN conjunct2, THEN conjunct2, THEN conjunct2,
    THEN conjunct1, rule_format]
  note first_two = inst [THEN conjunct2, THEN conjunct2, THEN conjunct2, THEN conjunct2,
    THEN conjunct2, rule_format]
  have upt: "[1..<Suc 3] = [1, 2, 3]" "[1..<Suc 2] = [1, 2]"
    by (simp_all add: upt_rec)
  have "map Schema.ID (written_schemas (world (run demo_calls (svc_writer no_errors)))) = [1, 2, 3]"
    using s_ids unfolding ns upt by simp
  moreover have "map unat (map Schema.ID (written_schemas (world (run demo_calls (svc_writer no_errors)))))
        = [1, 2, 3]"
    using s_nat unfolding ns upt by simp
  moreover have "map Channel.ID (written_channels (world (run demo_calls (svc_writer no_errors)))) = [1, 2]"
    using c_ids unfolding nc upt by simp
  moreover have "map unat (map Channel.ID (written_channels (world (run demo_calls (svc_writer no_errors)))))
        = [1, 2]"
    using c_nat unfolding nc upt by simp
  moreover have "c = 3"
    using fresh [of "''/metrics/svc/heap''" "''mahcanirobotics.metric''" Map.empty c u'] third mk
    unfolding nc by simp
  moreover have "c1 = 1 \<and> c2 = 2"
    using first_two [of "''/logs/svc''" Map.empty c1 u1 "''/metrics/svc/cpu/load''" Map.empty c2 u2] l m
    by simp
  ultimately show ?thesis
    using opened mk l m by simp
qed

text \<open>
  Claim C2 as stated fails: channel ids do not continue after the schema ids.
  Right after construction of the example writer the log channel receives id 1,
  not 4, and the metric channel for \<^verbatim>\<open>cpu.load\<close> receives id 2, not 5.
\<close>

theorem first_channels_get_ids_1_and_2:
  "NewUnifiedMcapWriter demo_service demo_options no_errors = Inr (svc_writer no_errors)
   \<and> fst (CreateLogChannel ''/logs/svc'' Map.empty (svc_writer no_errors)) = Inr 1
   \<and> fst (CreateLogChannel ''/logs/svc'' Map.empty (svc_writer no_errors)) \<noteq> Inr 4
   \<and> fst (CreateMetricChannel ''/metrics/svc/cpu/load'' Map.empty
             (snd (CreateLogChannel ''/logs/svc'' Map.empty (svc_writer no_errors)))) = Inr 2
   \<and> fst (CreateMetricChannel ''/metrics/svc/cpu/load'' Map.empty
             (snd (CreateLogChannel ''/logs/svc'' Map.empty (svc_writer no_errors)))) \<noteq> Inr 5"
proof -
  have "NewUnifiedMcapWriter demo_service demo_options no_errors = Inr (svc_writer no_errors)"
    by (rule svc_writer_opened) (simp add: no_errors_def)
  then show ?thesis by (simp add: eval_writer)
qed

text \<open>
  The same scenario through the adapters: the log adapter of service \<^verbatim>\<open>svc\<close>
  obtains channel 1 for \<^verbatim>\<open>/logs/svc\<close>, the metric adapter obtains channel 2 for
  the metric \<^verbatim>\<open>cpu.load\<close>.
\<close>

lemma adapters_channel_ids:
  "map_sum id channelID (fst (NewLogMcapWriter demo_service (svc_writer no_errors))) = Inr 1
   \<and> fst (getOrCreateChannel ''cpu.load'' (NewMetricMcapWriter demo_service)
            (snd (NewLogMcapWriter demo_service (svc_writer no_errors)))) = Inr 2
   \<and> map Topic (written_channels (world (snd (snd
         (getOrCreateChannel ''cpu.load'' (NewMetricMcapWriter demo_service)
            (snd (NewLogMcapWriter demo_service (svc_writer no_errors)))))))) =
       [''/logs/svc'', ''/metrics/svc/cpu/load'']"
  by (simp add: NewLogMcapWriter_def getOrCreateChannel_def NewMetricMcapWriter_def
        demo_service_def eval_writer)

subsection \<open>Order of write and binding\<close>

text \<open>
  Claim C3, as amended. \<^verbatim>\<open>RegisterSchema\<close> and \<^verbatim>\<open>CreateChannel\<close> perform the
  stream write first and record the id binding only after the write succeeded.
  When a write failure is propagated to the caller, no binding has been recorded
  for the name or topic and the counter has not advanced. Hence, after a
  successful construction and any sequence of calls, the bindings in memory are
  exactly those of the records the codec accepted: the in-memory state is never
  ahead of the stream.
\<close>

theorem write_failure_commits_no_binding:
  "(RegisterSchema name u = (Some (WriteSchemaFailed name e), u1) \<longrightarrow>
      schemaIDs u1 = schemaIDs u \<and> schemaIDs u1 name = None
      \<and> nextSchemaID u1 = nextSchemaID u
      \<and> written_schemas (world u1) = written_schemas (world u))
   \<and> (CreateChannel topic schemaName md u = (Inl (CreateChannelFailed e), u2) \<longrightarrow>
      UnifiedMcapWriter.channels u2 = UnifiedMcapWriter.channels u
      \<and> UnifiedMcapWriter.channels u2 topic = None
      \<and> nextChannel u2 = nextChannel u
      \<and> written_channels (world u2) = written_channels (world u))
   \<and> (NewUnifiedMcapWriter serviceOpts foxgloveOpts env = Inr u0 \<longrightarrow>
      schemaIDs (run ops u0) =
        map_of (map (\<lambda>s. (Schema.Name s, Schema.ID s)) (written_schemas (world (run ops u0))))
      \<and> UnifiedMcapWriter.channels (run ops u0) =
        map_of (map (\<lambda>c. (Topic c, Channel.ID c)) (written_channels (world (run ops u0)))))"
proof -
  have schema_part: "schemaIDs u1 = schemaIDs u \<and> schemaIDs u1 name = None
      \<and> nextSchemaID u1 = nextSchemaID u
      \<and> written_schemas (world u1) = written_schemas (world u)"
    if "RegisterSchema name u = (Some (WriteSchemaFailed name e), u1)"
    using that by (cases rule: RegisterSchema_cases [of u name]) auto
  have channel_part: "UnifiedMcapWriter.channels u2 = UnifiedMcapWriter.channels u
      \<and> UnifiedMcapWriter.channels u2 topic = None
      \<and> nextChannel u2 = nextChannel u
      \<and> written_channels (world u2) = written_channels (world u)"
    if "CreateChannel topic schemaName md u = (Inl (CreateChannelFailed e), u2)"
    using that by (cases rule: CreateChannel_cases [of u topic schemaName md]) auto
  have reachable_part: "schemaIDs (run ops u0) =
        map_of (map (\<lambda>s. (Schema.Name s, Schema.ID s)) (written_schemas (world (run ops u0))))
      \<and> UnifiedMcapWriter.channels (run ops u0) =
        map_of (map (\<lambda>c. (Topic c, Channel.ID c)) (written_channels (world (run ops u0))))"
    if "NewUnifiedMcapWriter serviceOpts foxgloveOpts env = Inr u0"
    using reachable_inv [OF that, of ops]
    by (simp add: schema_inv_def channel_inv_def Let_def)
  show ?thesis
    by (rule impI | erule schema_part channel_part reachable_part | rule conjI)+
qed

text \<open>
  Claim C3 as stated fails. In the world where the seventh call fails, registering
  \<^verbatim>\<open>foxglove.Plot\<close> on the example writer reports the write failure and leaves
  the name without id and the counter at 3; creating the log channel reports the
  failure and leaves the topic without id and the counter at 1.
\<close>

theorem failed_write_records_nothing:
  "RegisterSchema ''foxglove.Plot'' (svc_writer (fails_at 6)) =
     (Some (WriteSchemaFailed ''foxglove.Plot'' ''input/output error''),
      (svc_writer (fails_at 6))\<lparr>world := \<lparr>trace = svc_trace @
         [(Call_WriteSchema \<lparr>Schema.ID = 3, Name = ''foxglove.Plot'',
             Encoding = ''jsonschema'', Data = foxglovePlotSchema\<rparr>,
           Some ''input/output error'')], answers = fails_at 6\<rparr>\<rparr>)
   \<and> schemaIDs (snd (RegisterSchema ''foxglove.Plot'' (svc_writer (fails_at 6))))
        ''foxglove.Plot'' = None
   \<and> nextSchemaID (snd (RegisterSchema ''foxglove.Plot'' (svc_writer (fails_at 6)))) = 3
   \<and> fst (CreateChannel ''/logs/svc'' ''foxglove.Log'' Map.empty (svc_writer (fails_at 6))) =
        Inl (CreateChannelFailed ''input/output error'')
   \<and> UnifiedMcapWriter.channels
        (snd (CreateChannel ''/logs/svc'' ''foxglove.Log'' Map.empty (svc_writer (fails_at 6))))
        ''/logs/svc'' = None
   \<and> nextChannel
        (snd (CreateChannel ''/logs/svc'' ''foxglove.Log'' Map.empty (svc_writer (fails_at 6))))
        = 1"
  by (simp add: eval_writer)

theorem write_failure_commits_no_binding_witness:
  "NewUnifiedMcapWriter demo_service demo_options (fails_at 6) = Inr (svc_writer (fails_at 6))
   \<and> fst (RegisterSchema ''foxglove.Plot'' (svc_writer (fails_at 6))) =
        Some (WriteSchemaFailed ''foxglove.Plot'' ''input/output error'')
   \<and> schemaIDs (snd (RegisterSchema ''foxglove.Plot'' (svc_writer (fails_at 6))))
        ''foxglove.Plot'' = None
   \<and> nextSchemaID (snd (RegisterSchema ''foxglove.Plot'' (svc_writer (fails_at 6)))) =
        nextSchemaID (svc_writer (fails_at 6))
   \<and> fst (CreateChannel ''/logs/svc'' ''foxglove.Log'' Map.empty (svc_writer (fails_at 6))) =
        Inl (CreateChannelFailed ''input/output error'')
   \<and> UnifiedMcapWriter.channels
        (snd (CreateChannel ''/logs/svc'' ''foxglove.Log'' Map.empty (svc_writer (fails_at 6))))
        ''/logs/svc'' = None
   \<and> nextChannel
        (snd (CreateChannel ''/logs/svc'' ''foxglove.Log'' Map.empty (svc_writer (fails_at 6))))
        = nextChannel (svc_writer (fails_at 6))
   \<and> dom (schemaIDs (run demo_calls (svc_writer (fails_at 6)))) =
        {''foxglove.Log'', ''mahcanirobotics.metric'', ''foxglove.Plot''}
   \<and> map Schema.Name (written_schemas (world (run demo_calls (svc_writer (fails_at 6))))) =
        [''foxglove.Log'', ''mahcanirobotics.metric'', ''foxglove.Plot'']
   \<and> dom (UnifiedMcapWriter.channels (run demo_calls (svc_writer (fails_at 6)))) =
        {''/logs/svc'', ''/metrics/svc/cpu/load''}
   \<and> map Topic (written_channels (world (run demo_calls (svc_writer (fails_at 6))))) =
        [''/logs/svc'', ''/metrics/svc/cpu/load'']"
proof -
  have opened: "NewUnifiedMcapWriter demo_service demo_options (fails_at 6) =
      Inr (svc_writer (fails_at 6))"
    by (rule svc_writer_opened) (simp add: fails_at_def)
  obtain u1 where r: "RegisterSchema ''foxglove.Plot'' (svc_writer (fails_at 6)) =
      (Some (WriteSchemaFailed ''foxglove.Plot'' ''input/output error''), u1)"
    by (simp add: eval_writer)
  obtain u2 where c: "CreateChannel ''/logs/svc'' ''foxglove.Log'' Map.empty
      (svc_writer (fails_at 6)) = (Inl (CreateChannelFailed ''input/output error''), u2)"
    by (simp add: eval_writer)
  note inst = write_failure_commits_no_binding
    [where name = "''foxglove.Plot''" and u = "svc_writer (fails_at 6)"
       and e = "''input/output error''" and ?u1.0 = u1 and topic = "''/logs/svc''"
       and schemaName = "''foxglove.Log''" and md = Map.empty and ?u2.0 = u2
       and serviceOpts = demo_service and foxgloveOpts = demo_options and env = "fails_at 6"
       and ?u0.0 = "svc_writer (fails_at 6)" and ops = demo_calls]
  note schema_part = inst [THEN conjunct1, rule_format, OF r]
  note channel_part = inst [THEN conjunct2, THEN conjunct1, rule_format, OF c]
  note reachable_part = inst [THEN conjunct2, THEN conjunct2, rule_format, OF opened]
  have names: "map Schema.Name (written_schemas (world (run demo_calls (svc_writer (fails_at 6))))) =
        [''foxglove.Log'', ''mahcanirobotics.metric'', ''foxglove.Plot'']"
    and topics: "map Topic (written_channels (world (run demo_calls (svc_writer (fails_at 6))))) =
        [''/logs/svc'', ''/metrics/svc/cpu/load'']"
    by (simp_all add: demo_calls_def eval_writer)
  have "dom (schemaIDs (run demo_calls (svc_writer (fails_at 6)))) =
        {''foxglove.Log'', ''mahcanirobotics.metric'', ''foxglove.Plot''}"
    using names unfolding reachable_part [THEN conjunct1] dom_map_of_conv_image_fst
    by (simp add: image_comp comp_def flip: set_map)
  moreover have "dom (UnifiedMcapWriter.channels (run demo_calls (svc_writer (fails_at 6)))) =
        {''/logs/svc'', ''/metrics/svc/cpu/load''}"
    using topics unfolding reachable_part [THEN conjunct2] dom_map_of_conv_image_fst
    by (simp add: image_comp comp_def flip: set_map)
  ultimately show ?thesis
    using opened r c schema_part channel_part names topics by (simp add: svc_writer_def)
qed

subsection \<open>Idempotent channel creation\<close>



subsection \<open>Idempotent schema registration\<close>




subsection \<open>Channels on unregistered schemas\<close>

text \<open>
  Claim C6. For a topic without binding, \<^verbatim>\<open>CreateChannel\<close> with a schema name
  that has no id returns the error "schema not registered" and the writer as it
  was: no call reaches the codec, so no channel record is written, the topic
  stays unbound and the channel counter keeps its value.
\<close>

theorem CreateChannel_unregistered_schema:
  assumes "UnifiedMcapWriter.channels u topic = None"
    and "schemaIDs u schemaName = None"
  shows "CreateChannel topic schemaName md u = (Inl (SchemaNotRegistered schemaName), u)
       \<and> trace (world (snd (CreateChannel topic schemaName md u))) = trace (world u)
       \<and> UnifiedMcapWriter.channels (snd (CreateChannel topic schemaName md u)) topic = None
       \<and> nextChannel (snd (CreateChannel topic schemaName md u)) = nextChannel u"
  using assms by (simp add: CreateChannel_def)

theorem CreateChannel_unregistered_schema_witness:
  "UnifiedMcapWriter.channels (svc_writer no_errors) ''t'' = None
   \<and> schemaIDs (svc_writer no_errors) ''nonexistent-schema'' = None
   \<and> CreateChannel ''t'' ''nonexistent-schema'' Map.empty (svc_writer no_errors) =
        (Inl (SchemaNotRegistered ''nonexistent-schema''), svc_writer no_errors)
   \<and> nextChannel (snd (CreateChannel ''t'' ''nonexistent-schema'' Map.empty
        (svc_writer no_errors))) = 1"
proof -
  have unbound: "UnifiedMcapWriter.channels (svc_writer no_errors) ''t'' = None"
    and unregistered: "schemaIDs (svc_writer no_errors) ''nonexistent-schema'' = None"
    and counter: "nextChannel (svc_writer no_errors) = 1"
    by (simp_all add: svc_writer_def)
  from CreateChannel_unregistered_schema [OF unbound unregistered, of Map.empty]
    unbound unregistered counter
  show ?thesis by simp
qed

subsection \<open>Writing after close\<close>

text \<open>
  Claim C7. \<^verbatim>\<open>WriteMessage\<close> does not look at the closed flag. On a closed
  writer, for every channel id and payload, the message (with sequence number 0)
  is handed to the codec, and the call returns what the codec returns: no error
  if the codec reports none, the error of the codec otherwise, never an error of
  the writer's own. The outcome is the same whether the flag is set or not.
\<close>

theorem WriteMessage_ignores_closed:
  "(closed u \<longrightarrow>
      WriteMessage cid payload logTime publishTime u =
        (map_option McapError (answers (world u) (length (trace (world u)))),
         u\<lparr>world := (world u)\<lparr>trace := trace (world u) @
            [(Call_WriteMessage \<lparr>ChannelID = cid, Sequence = 0, LogTime = logTime,
                PublishTime = publishTime, Data = payload\<rparr>,
              answers (world u) (length (trace (world u))))]\<rparr>\<rparr>))
   \<and> fst (WriteMessage cid payload logTime publishTime (u\<lparr>closed := True\<rparr>)) =
       fst (WriteMessage cid payload logTime publishTime (u\<lparr>closed := False\<rparr>))
   \<and> world (snd (WriteMessage cid payload logTime publishTime (u\<lparr>closed := True\<rparr>))) =
       world (snd (WriteMessage cid payload logTime publishTime (u\<lparr>closed := False\<rparr>)))"
  by (simp add: WriteMessage_eq)

theorem WriteMessage_ignores_closed_witness:
  "Close (svc_writer no_errors) =
     (None, (svc_writer no_errors)\<lparr>world := \<lparr>trace = svc_trace @
        [(Call_WriterClose, None), (Call_FileClose, None)], answers = no_errors\<rparr>,
        closed := True\<rparr>)
   \<and> closed (snd (Close (svc_writer no_errors)))
   \<and> fst (WriteMessage 1 ''{}'' 7 7 (snd (Close (svc_writer no_errors)))) = None
   \<and> trace (world (snd (WriteMessage 1 ''{}'' 7 7 (snd (Close (svc_writer no_errors)))))) =
       svc_trace @
        [(Call_WriterClose, None), (Call_FileClose, None),
         (Call_WriteMessage \<lparr>ChannelID = 1, Sequence = 0, LogTime = 7, PublishTime = 7,
            Data = ''{}''\<rparr>, None)]"
proof -
  have closing: "Close (svc_writer no_errors) =
     (None, (svc_writer no_errors)\<lparr>world := \<lparr>trace = svc_trace @
        [(Call_WriterClose, None), (Call_FileClose, None)], answers = no_errors\<rparr>,
        closed := True\<rparr>)"
    by (simp add: Close_def extcall_eq svc_writer_def no_errors_def)
  then have is_closed: "closed (snd (Close (svc_writer no_errors)))"
    by simp
  from WriteMessage_ignores_closed [of "snd (Close (svc_writer no_errors))" 1 "''{}''" 7 7,
      THEN conjunct1, rule_format, OF is_closed] closing
  show ?thesis
    by (simp add: no_errors_def svc_writer_def)
qed

subsection \<open>Closing\<close>




subsection \<open>Topic of a metric channel\<close>

text \<open>
  Claim C9. When the metric adapter has no cached channel for a metric name and
  obtains one, the channel id is the one the unified writer binds to the topic
  \<^verbatim>\<open>/metrics/{serviceName}/\<close> followed by the metric name with every \<^verbatim>\<open>.\<close>
  replaced by \<^verbatim>\<open>/\<close>; if that topic was unbound before, the channel record
  written last carries this topic. The witness is the metric
  \<^verbatim>\<open>llm.cache.hit_rate\<close> of service \<^verbatim>\<open>svc\<close> with topic
  \<^verbatim>\<open>/metrics/svc/llm/cache/hit_rate\<close>.
\<close>

theorem metric_topic_derivation:
  assumes "MetricMcapWriter.channels m metricName = None"
    and "getOrCreateChannel metricName m u = (Inr c, m', u')"
    and "topic = ''/metrics/'' @ MetricMcapWriter.serviceName m @ ''/''
                   @ map (\<lambda>ch. if ch = CHR ''.'' then CHR ''/'' else ch) metricName"
  shows "UnifiedMcapWriter.channels u' topic = Some c
       \<and> MetricMcapWriter.channels m' metricName = Some c
       \<and> (UnifiedMcapWriter.channels u topic = None \<longrightarrow>
            map Topic (written_channels (world u')) =
              map Topic (written_channels (world u)) @ [topic])"
proof -
  let ?md = "(metadata m)(''metric_name'' \<mapsto> metricName)"
  have topic: "''/metrics/'' @ MetricMcapWriter.serviceName m @ ''/''
      @ ReplaceAll metricName ''.'' ''/'' = topic"
    using assms(3) by (simp add: ReplaceAll_single)
  obtain r u2 where cc: "CreateChannel topic ''mahcanirobotics.metric'' ?md u = (r, u2)"
    by (cases "CreateChannel topic ''mahcanirobotics.metric'' ?md u") blast
  with assms(1,2) topic have res: "r = Inr c" "u2 = u'"
    and cache: "MetricMcapWriter.channels m' metricName = Some c"
    by (auto simp: getOrCreateChannel_def CreateMetricChannel_def Let_def split: sum.splits)
  from cc res have cc': "CreateChannel topic ''mahcanirobotics.metric'' ?md u = (Inr c, u')"
    by simp
  then have bound: "UnifiedMcapWriter.channels u' topic = Some c"
    by (cases rule: CreateChannel_cases [of u topic "''mahcanirobotics.metric''" ?md]) auto
  have written: "map Topic (written_channels (world u')) =
      map Topic (written_channels (world u)) @ [topic]"
    if "UnifiedMcapWriter.channels u topic = None"
    using cc' that
    by (cases rule: CreateChannel_cases [of u topic "''mahcanirobotics.metric''" ?md]) auto
  from bound cache written show ?thesis by simp
qed

theorem metric_topic_derivation_witness:
  "MetricMcapWriter.channels (NewMetricMcapWriter demo_service) ''llm.cache.hit_rate'' = None
   \<and> fst (getOrCreateChannel ''llm.cache.hit_rate'' (NewMetricMcapWriter demo_service)
            (svc_writer no_errors)) = Inr 1
   \<and> ''/metrics/'' @ MetricMcapWriter.serviceName (NewMetricMcapWriter demo_service) @ ''/''
        @ map (\<lambda>ch. if ch = CHR ''.'' then CHR ''/'' else ch) ''llm.cache.hit_rate''
      = ''/metrics/svc/llm/cache/hit_rate''
   \<and> UnifiedMcapWriter.channels
        (snd (snd (getOrCreateChannel ''llm.cache.hit_rate'' (NewMetricMcapWriter demo_service)
            (svc_writer no_errors)))) ''/metrics/svc/llm/cache/hit_rate'' = Some 1
   \<and> map Topic (written_channels (world
        (snd (snd (getOrCreateChannel ''llm.cache.hit_rate'' (NewMetricMcapWriter demo_service)
            (svc_writer no_errors)))))) = [''/metrics/svc/llm/cache/hit_rate'']"
proof -
  have miss: "MetricMcapWriter.channels (NewMetricMcapWriter demo_service) ''llm.cache.hit_rate'' = None"
    by (simp add: NewMetricMcapWriter_def)
  obtain m' u' where call: "getOrCreateChannel ''llm.cache.hit_rate'' (NewMetricMcapWriter demo_service)
            (svc_writer no_errors) = (Inr 1, m', u')"
    by (simp add: getOrCreateChannel_def NewMetricMcapWriter_def demo_service_def eval_writer)
  have topic: "''/metrics/svc/llm/cache/hit_rate'' =
      ''/metrics/'' @ MetricMcapWriter.serviceName (NewMetricMcapWriter demo_service) @ ''/''
        @ map (\<lambda>ch. if ch = CHR ''.'' then CHR ''/'' else ch) ''llm.cache.hit_rate''"
    by (simp add: NewMetricMcapWriter_def demo_service_def)
  have unbound: "UnifiedMcapWriter.channels (svc_writer no_errors)
      ''/metrics/svc/llm/cache/hit_rate'' = None"
    and none_yet: "written_channels (world (svc_writer no_errors)) = []"
    by (simp_all add: eval_writer)
  from metric_topic_derivation [OF miss call topic] miss call topic [symmetric] unbound none_yet
  show ?thesis by simp
qed

subsection \<open>Custom schema under a bound name\<close>

text \<open>
  Claim C10. If a schema name already has an id, \<^verbatim>\<open>AddCustomSchema\<close> with a new
  definition replaces the definition in the registry and returns success without
  any call to the codec: the name keeps its id, the schema bindings, the schema
  counter and the stream are unchanged. After a successful construction and any
  sequence of calls, the stream therefore still holds exactly one schema record
  for the name, the one written when the name was bound.
\<close>

theorem AddCustomSchema_bound_name:
  assumes "schemaIDs u name = Some i"
    and "u' = snd (AddCustomSchema name newDefinition u)"
  shows "AddCustomSchema name newDefinition u =
           (None, u\<lparr>registry := Register name newDefinition (registry u)\<rparr>)
       \<and> Get (registry u') name = Some newDefinition
       \<and> schemaIDs u' = schemaIDs u \<and> schemaIDs u' name = Some i
       \<and> nextSchemaID u' = nextSchemaID u
       \<and> world u' = world u
       \<and> written_schemas (world u') = written_schemas (world u)
       \<and> (NewUnifiedMcapWriter serviceOpts foxgloveOpts env = Inr u0 \<and> u = run ops u0 \<longrightarrow>
            map Schema.ID (filter (\<lambda>s. Schema.Name s = name) (written_schemas (world u'))) = [i])"
proof -
  have res: "AddCustomSchema name newDefinition u =
      (None, u\<lparr>registry := Register name newDefinition (registry u)\<rparr>)"
    using assms(1) by (simp add: AddCustomSchema_def RegisterSchema_def)
  then have u': "u' = u\<lparr>registry := Register name newDefinition (registry u)\<rparr>"
    using assms(2) by simp
  have one: "map Schema.ID (filter (\<lambda>s. Schema.Name s = name) (written_schemas (world u'))) = [i]"
    if "NewUnifiedMcapWriter serviceOpts foxgloveOpts env = Inr u0" "u = run ops u0"
  proof -
    have "schema_inv u"
      using reachable_inv(1) [OF that(1)] that(2) by simp
    with assms(1) show ?thesis unfolding u'
      by (intro unique_record) (simp_all add: schema_inv_def Let_def)
  qed
  from res one assms(1) show ?thesis
    unfolding u' by (simp add: Get_def Register_def)
qed

theorem AddCustomSchema_bound_name_witness:
  "NewUnifiedMcapWriter demo_service demo_options no_errors = Inr (svc_writer no_errors)
   \<and> schemaIDs (svc_writer no_errors) ''foxglove.Log'' = Some 1
   \<and> fst (AddCustomSchema ''foxglove.Log'' ''{}'' (svc_writer no_errors)) = None
   \<and> Get (registry (snd (AddCustomSchema ''foxglove.Log'' ''{}'' (svc_writer no_errors))))
        ''foxglove.Log'' = Some ''{}''
   \<and> schemaIDs (snd (AddCustomSchema ''foxglove.Log'' ''{}'' (svc_writer no_errors)))
        ''foxglove.Log'' = Some 1
   \<and> nextSchemaID (snd (AddCustomSchema ''foxglove.Log'' ''{}'' (svc_writer no_errors))) = 3
   \<and> trace (world (snd (AddCustomSchema ''foxglove.Log'' ''{}'' (svc_writer no_errors)))) =
        svc_trace
   \<and> map Schema.Data (filter (\<lambda>s. Schema.Name s = ''foxglove.Log'')
        (written_schemas (world (snd (AddCustomSchema ''foxglove.Log'' ''{}''
           (svc_writer no_errors)))))) = [foxgloveLogSchema]
   \<and> map Schema.ID (filter (\<lambda>s. Schema.Name s = ''foxglove.Log'')
        (written_schemas (world (snd (AddCustomSchema ''foxglove.Log'' ''{}''
           (svc_writer no_errors)))))) = [1]
   \<and> foxgloveLogSchema \<noteq> ''{}''"
proof -
  have opened: "NewUnifiedMcapWriter demo_service demo_options no_errors = Inr (svc_writer no_errors)"
    by (rule svc_writer_opened) (simp add: no_errors_def)
  have start: "svc_writer no_errors = run [] (svc_writer no_errors)"
    by (simp add: run_def)
  have bound: "schemaIDs (svc_writer no_errors) ''foxglove.Log'' = Some 1"
    and counter: "nextSchemaID (svc_writer no_errors) = 3"
    and tr: "trace (world (svc_writer no_errors)) = svc_trace"
    by (simp_all add: svc_writer_def)
  have data: "map Schema.Data (filter (\<lambda>s. Schema.Name s = ''foxglove.Log'')
        (written_schemas (world (svc_writer no_errors)))) = [foxgloveLogSchema]"
    by (simp add: eval_writer)
  have differs: "foxgloveLogSchema \<noteq> ''{}''"
    by (simp add: foxgloveLogSchema_def)
  note inst = AddCustomSchema_bound_name [OF bound refl, of "''{}''" demo_service demo_options
      no_errors "svc_writer no_errors" "[]"]
  note stream_part = inst [THEN conjunct2, THEN conjunct2, THEN conjunct2, THEN conjunct2,
      THEN conjunct2, THEN conjunct2, THEN conjunct2, rule_format, OF conjI, OF opened start]
  from inst stream_part opened bound counter tr data differs show ?thesis
    by (simp add: Get_def Register_def)
qed

end
